theory Spec2Isabelle
  imports Main "HOL-Library.Sublist"
begin

section \<open>claude-mailer: a shallow embedding of \<^verbatim>\<open>index.ts\<close>\<close>

text \<open>
  JavaScript strings are modelled as \<^typ>\<open>string\<close>: a list of characters with codes
  0 to 255. Every regular expression of the source tests ASCII characters only, and
  \<^verbatim>\<open>String.fromCharCode\<close> is only ever applied to a two-digit hexadecimal number,
  so the functions below behave on these strings as the source does on strings whose
  code units are below 256. The debug output of \<^verbatim>\<open>log\<close>, printed only with
  \<^verbatim>\<open>--verbose\<close>, and the loading of the configuration file are left out: the
  credentials are taken as they are after \<^verbatim>\<open>loadConfig\<close>.
\<close>

subsection \<open>String operations of the JavaScript library\<close>

abbreviation LF :: char where "LF \<equiv> CHR 0x0A"
abbreviation CR :: char where "CR \<equiv> CHR 0x0D"
abbreviation DQ :: char where "DQ \<equiv> CHR 0x22"
abbreviation BSL :: char where "BSL \<equiv> CHR 0x5C"

text \<open>\<^verbatim>\<open>s.replace(/[class]/g, f)\<close> for a regular expression that is one character class:
  every character of the class is replaced by what \<open>f\<close> gives for it.\<close>

primrec replace_class :: "(char \<Rightarrow> bool) \<Rightarrow> (char \<Rightarrow> string) \<Rightarrow> string \<Rightarrow> string" where
  "replace_class P f [] = []"
| "replace_class P f (c # r) = (if P c then f c @ replace_class P f r else c # replace_class P f r)"

text \<open>\<^verbatim>\<open>s.replace(/c/g, rep)\<close> for a single character \<open>c\<close> and a replacement without \<^verbatim>\<open>$\<close>.\<close>

definition replace_char :: "char \<Rightarrow> string \<Rightarrow> string \<Rightarrow> string" where
  "replace_char c rep s = replace_class (\<lambda>x. x = c) (\<lambda>_. rep) s"

text \<open>\<^verbatim>\<open>s.includes(needle)\<close>.\<close>

fun str_includes :: "string \<Rightarrow> string \<Rightarrow> bool" where
  "str_includes [] needle = (needle = [])"
| "str_includes (c # r) needle = (prefix needle (c # r) \<or> str_includes r needle)"

text \<open>\<^verbatim>\<open>pieces.join(sep)\<close>.\<close>

fun join :: "string \<Rightarrow> string list \<Rightarrow> string" where
  "join sep [] = []"
| "join sep [p] = p"
| "join sep (p # q # ps) = p @ sep @ join sep (q # ps)"

text \<open>\<^verbatim>\<open>s.trim()\<close>: the white space and line terminators with a code below 256.\<close>

definition is_space :: "char \<Rightarrow> bool" where
  "is_space c = (c \<in> set [CHR 0x09, CHR 0x0A, CHR 0x0B, CHR 0x0C, CHR 0x0D, CHR 0x20, CHR 0xA0])"

definition trim :: "string \<Rightarrow> string" where
  "trim s = rev (dropWhile is_space (rev (dropWhile is_space s)))"

text \<open>A value used as a condition: \<^verbatim>\<open>undefined\<close> and the empty string are false.\<close>

definition truthy :: "string option \<Rightarrow> bool" where
  "truthy x = (case x of None \<Rightarrow> False | Some s \<Rightarrow> s \<noteq> [])"

text \<open>\<^verbatim>\<open>x || d\<close> on an optional string.\<close>

definition or_else :: "string option \<Rightarrow> string \<Rightarrow> string" where
  "or_else x d = (case x of None \<Rightarrow> d | Some s \<Rightarrow> if s = [] then d else s)"

definition is_letter :: "char \<Rightarrow> bool" where
  "is_letter c = (let n = (of_char c :: nat) in (65 \<le> n \<and> n \<le> 90) \<or> (97 \<le> n \<and> n \<le> 122))"

definition to_lower :: "char \<Rightarrow> char" where
  "to_lower c = (let n = (of_char c :: nat) in if 65 \<le> n \<and> n \<le> 90 then char_of (n + 32) else c)"

subsection \<open>Regular expressions of the source, as matchers at the start of a string\<close>

text \<open>A matcher gives the rest of the string after the match, or \<open>None\<close> when the
  expression does not match at the start. None of the expressions below has two ways to
  match at one position, so backtracking never changes the result.\<close>

definition skip_cr :: "string \<Rightarrow> string" where
  "skip_cr s = (case s of [] \<Rightarrow> [] | c # r \<Rightarrow> if c = CR then r else s)"

definition eat_lf :: "string \<Rightarrow> string option" where
  "eat_lf s = (case s of [] \<Rightarrow> None | c # r \<Rightarrow> if c = LF then Some r else None)"

text \<open>\<^verbatim>\<open>/\r?\n\r?\n/\<close>\<close>

definition blank_line :: "string \<Rightarrow> string option" where
  "blank_line s = (case eat_lf (skip_cr s) of None \<Rightarrow> None | Some r \<Rightarrow> eat_lf (skip_cr r))"

text \<open>\<^verbatim>\<open>/=\r?\n/\<close>\<close>

definition soft_break :: "string \<Rightarrow> string option" where
  "soft_break s = (case s of [] \<Rightarrow> None | c # r \<Rightarrow> if c = CHR ''='' then eat_lf (skip_cr r) else None)"

text \<open>\<^verbatim>\<open>s.split(/\r?\n\r?\n/)\<close>: the pieces between the matches, found from left to right.\<close>

function split_blank :: "string \<Rightarrow> string list" where
  "split_blank [] = [[]]"
| "split_blank (c # r) =
     (case blank_line (c # r) of
        Some rest \<Rightarrow> [] # split_blank rest
      | None \<Rightarrow> (case split_blank r of [] \<Rightarrow> [[c]] | p # ps \<Rightarrow> (c # p) # ps))"
  by pat_completeness auto
termination
  by (relation "measure length")
     (auto simp: blank_line_def eat_lf_def skip_cr_def split: list.splits if_splits option.splits)

text \<open>\<^verbatim>\<open>s.split(re)\<close> for a regular expression that matches the literal text \<open>sep\<close>;
  an empty expression splits between all characters.\<close>

function split_nonempty :: "string \<Rightarrow> string \<Rightarrow> string list" where
  "split_nonempty sep [] = [[]]"
| "split_nonempty sep (c # r) =
     (if sep \<noteq> [] \<and> prefix sep (c # r)
      then [] # split_nonempty sep (drop (length sep) (c # r))
      else (case split_nonempty sep r of [] \<Rightarrow> [[c]] | p # ps \<Rightarrow> (c # p) # ps))"
  by pat_completeness auto
termination
  by (relation "measure (\<lambda>(sep, s). length s)") (auto simp: neq_Nil_conv)

definition split_lit :: "string \<Rightarrow> string \<Rightarrow> string list" where
  "split_lit sep s = (if sep = [] then map (\<lambda>c. [c]) s else split_nonempty sep s)"

subsection \<open>HTML utilities\<close>

definition escapeHtml :: "string \<Rightarrow> string" where
  "escapeHtml text =
     replace_char DQ ''&quot;''
       (replace_char (CHR ''>'') ''&gt;''
         (replace_char (CHR ''<'') ''&lt;''
           (replace_char (CHR ''&'') ''&amp;'' text)))"

text \<open>\<^verbatim>\<open>/<[a-z][\s\S]*>/i.test(text)\<close>: at some position a \<^verbatim>\<open><\<close>, then a letter, then
  anything, then a \<^verbatim>\<open>>\<close>.\<close>

fun isHtml :: "string \<Rightarrow> bool" where
  "isHtml [] = False"
| "isHtml (c # r) =
     ((c = CHR ''<'' \<and> (case r of [] \<Rightarrow> False | l # m \<Rightarrow> is_letter l \<and> CHR ''>'' \<in> set m))
      \<or> isHtml r)"

definition textToHtml :: "string \<Rightarrow> string" where
  "textToHtml text = replace_char LF (''<br>'' @ [LF]) (escapeHtml text)"

subsection \<open>MIME utilities\<close>

definition is_hex :: "char \<Rightarrow> bool" where
  "is_hex c = (let n = (of_char c :: nat) in
     (48 \<le> n \<and> n \<le> 57) \<or> (65 \<le> n \<and> n \<le> 70) \<or> (97 \<le> n \<and> n \<le> 102))"

text \<open>The value of one hexadecimal digit, as \<^verbatim>\<open>parseInt(hex, 16)\<close> reads it.\<close>

definition hex_val :: "char \<Rightarrow> nat" where
  "hex_val c = (let n = (of_char c :: nat) in
     if n \<le> 57 then n - 48 else if n \<le> 70 then n - 55 else n - 87)"

text \<open>\<^verbatim>\<open>String.fromCharCode(parseInt(hex, 16))\<close> for the two captured digits.\<close>

definition hex_char :: "char \<Rightarrow> char \<Rightarrow> char" where
  "hex_char a b = char_of (16 * hex_val a + hex_val b)"

text \<open>\<^verbatim>\<open>text.replace(/=\r?\n/g, "")\<close>\<close>

function qp_soft :: "string \<Rightarrow> string" where
  "qp_soft [] = []"
| "qp_soft (c # r) =
     (case soft_break (c # r) of Some rest \<Rightarrow> qp_soft rest | None \<Rightarrow> c # qp_soft r)"
  by pat_completeness auto
termination
  by (relation "measure length")
     (auto simp: soft_break_def eat_lf_def skip_cr_def split: list.splits if_splits option.splits)

text \<open>\<^verbatim>\<open>.replace(/=([0-9A-F]{2})/gi, (_, hex) => String.fromCharCode(parseInt(hex, 16)))\<close>\<close>

fun qp_hex :: "string \<Rightarrow> string" where
  "qp_hex (c # a # b # r) =
     (if c = CHR ''='' \<and> is_hex a \<and> is_hex b then hex_char a b # qp_hex r
      else c # qp_hex (a # b # r))"
| "qp_hex [c, a] = [c, a]"
| "qp_hex [c] = [c]"
| "qp_hex [] = []"

definition decodeQuotedPrintable :: "string \<Rightarrow> string" where
  "decodeQuotedPrintable text = qp_hex (qp_soft text)"

subsection \<open>Decomposing a raw message (the body of \<^verbatim>\<open>fetchMessageById\<close>)\<close>

text \<open>\<^verbatim>\<open>headers.match(/boundary="?([^"\r\n]+)"?/i)\<close> at one position: the text
  \<^verbatim>\<open>boundary=\<close> in any case, an optional quote, and the longest run of characters other
  than a quote, CR and LF, which is the captured group and must not be empty.\<close>

definition boundary_at :: "string \<Rightarrow> string option" where
  "boundary_at s =
     (if map to_lower (take 9 s) = ''boundary=''
      then (let t = drop 9 s;
                u = (case t of [] \<Rightarrow> [] | c # r \<Rightarrow> if c = DQ then r else t);
                b = takeWhile (\<lambda>c. c \<noteq> DQ \<and> c \<noteq> CR \<and> c \<noteq> LF) u
            in if b = [] then None else Some b)
      else None)"

text \<open>The first position where the expression matches gives the result.\<close>

fun boundaryMatch :: "string \<Rightarrow> string option" where
  "boundaryMatch [] = None"
| "boundaryMatch (c # r) =
     (case boundary_at (c # r) of Some b \<Rightarrow> Some b | None \<Rightarrow> boundaryMatch r)"

text \<open>The characters of \<^verbatim>\<open>/[.*+?^${}()|[\]\\]/\<close>, which are all the syntax characters
  of a JavaScript regular expression.\<close>

definition syntax_char :: "char \<Rightarrow> bool" where
  "syntax_char c = (c \<in> set ''.*+?^${}()|[]'' \<or> c = BSL)"

text \<open>\<^verbatim>\<open>boundary.replace(/[.*+?^${}()|[\]\\]/g, "\\$&")\<close>: a backslash before each.\<close>

definition escapeRegExp :: "string \<Rightarrow> string" where
  "escapeRegExp b = replace_class syntax_char (\<lambda>c. [BSL, c]) b"

text \<open>\<^verbatim>\<open>new RegExp(pattern)\<close> for a pattern made of ordinary characters and of syntax
  characters behind a backslash: such an expression matches one literal text, which is
  the result. \<open>None\<close> is any other pattern, which this model does not interpret.\<close>

fun literal_of_pattern :: "string \<Rightarrow> string option" where
  "literal_of_pattern [] = Some []"
| "literal_of_pattern [c] = (if syntax_char c then None else Some [c])"
| "literal_of_pattern (c # d # r) =
     (if c = BSL
      then (if syntax_char d then map_option ((#) d) (literal_of_pattern r) else None)
      else if syntax_char c then None
      else map_option ((#) c) (literal_of_pattern (d # r)))"

text \<open>\<^verbatim>\<open>part.split(/\r?\n\r?\n/).slice(1).join("\n\n")\<close>\<close>

definition afterFirstBlank :: "string \<Rightarrow> string" where
  "afterFirstBlank part = join [LF, LF] (tl (split_blank part))"

text \<open>The loop over the parts, with the two variables it assigns.\<close>

fun scanParts :: "string list \<Rightarrow> string \<times> string \<Rightarrow> string \<times> string" where
  "scanParts [] (plainBody, htmlBody) = (plainBody, htmlBody)"
| "scanParts (part # parts) (plainBody, htmlBody) =
     (if str_includes part ''Content-Type: text/plain''
      then scanParts parts (decodeQuotedPrintable (afterFirstBlank part), htmlBody)
      else if str_includes part ''Content-Type: text/html''
      then scanParts parts (plainBody, decodeQuotedPrintable (afterFirstBlank part))
      else scanParts parts (plainBody, htmlBody))"

definition headersOf :: "string \<Rightarrow> string" where
  "headersOf sourceText = (case split_blank sourceText of [] \<Rightarrow> [] | h # _ \<Rightarrow> h)"

definition rawBodyOf :: "string \<Rightarrow> string" where
  "rawBodyOf sourceText = afterFirstBlank sourceText"

text \<open>The parts of a multipart body: \<open>None\<close> when the pattern built from the boundary is
  not one that \<^const>\<open>literal_of_pattern\<close> interprets.\<close>

definition partsOf :: "string \<Rightarrow> string \<Rightarrow> string list option" where
  "partsOf boundary rawBody =
     map_option (\<lambda>lit. split_lit lit rawBody)
       (literal_of_pattern (''--'' @ escapeRegExp boundary))"

text \<open>Lines 293 to 323: the pair \<open>(plainBody, htmlBody)\<close> before trimming.\<close>

definition decompose :: "string \<Rightarrow> (string \<times> string) option" where
  "decompose sourceText =
     (let headers = headersOf sourceText;
          rawBody = rawBodyOf sourceText
      in case boundaryMatch headers of
           Some boundary \<Rightarrow>
             map_option (\<lambda>parts. scanParts parts ([], [])) (partsOf boundary rawBody)
         | None \<Rightarrow> Some (decodeQuotedPrintable rawBody, []))"

subsection \<open>Types\<close>

record 'd FetchedMessage =
  messageId :: string
  "from" :: string
  to :: string
  subject :: string
  date :: 'd
  body :: string
  html :: "string option"
  references :: "string option"

record 'd SendOptions =
  so_to :: string
  so_subject :: string
  so_body :: string
  inReplyTo :: "string option"
  so_references :: "string option"
  quotedMessage :: "'d FetchedMessage option"

text \<open>The fields of \<^verbatim>\<open>nodemailer.SendMailOptions\<close> that \<^verbatim>\<open>sendEmail\<close> sets; a header
  that is not set is \<open>None\<close>.\<close>

record mailOptions =
  mo_from :: string
  mo_to :: string
  mo_subject :: string
  mo_html :: string
  mo_inReplyTo :: "string option"
  mo_references :: "string option"

subsection \<open>Composing the outgoing message\<close>

text \<open>\<^verbatim>\<open>formatDate\<close> renders a date with the locale data of the runtime; it is the
  parameter \<open>fmt\<close>.\<close>

definition formatHtmlQuote :: "('d \<Rightarrow> string) \<Rightarrow> 'd FetchedMessage \<Rightarrow> string" where
  "formatHtmlQuote fmt msg =
     (let attribution = ''On '' @ fmt (date msg) @ '', '' @ escapeHtml (from msg) @ '' wrote:'';
          quotedContent = or_else (html msg) (textToHtml (body msg))
      in [LF] @ ''<div style='' @ [DQ] @ ''margin-top: 1em; color: #666;'' @ [DQ] @ ''>''
         @ attribution @ ''</div>'' @ [LF]
         @ ''<blockquote type='' @ [DQ] @ ''cite'' @ [DQ] @ '' style='' @ [DQ]
         @ ''margin: 0.5em 0; padding-left: 1em; border-left: 2px solid #ccc;'' @ [DQ] @ ''>''
         @ [LF] @ quotedContent @ [LF] @ ''</blockquote>'')"

definition wrapInHtmlDocument :: "string \<Rightarrow> string" where
  "wrapInHtmlDocument bodyHtml =
     ''<!DOCTYPE html>'' @ [LF] @ ''<html>'' @ [LF] @ ''<head>'' @ [LF]
     @ ''  <meta charset='' @ [DQ] @ ''utf-8'' @ [DQ] @ ''>'' @ [LF] @ ''</head>'' @ [LF]
     @ ''<body style='' @ [DQ]
     @ ''font-family: -apple-system, BlinkMacSystemFont, 'Segoe UI', Roboto, sans-serif; ''
     @ ''font-size: 14px; line-height: 1.5; color: #333;'' @ [DQ] @ ''>'' @ [LF]
     @ bodyHtml @ [LF] @ ''</body>'' @ [LF] @ ''</html>''"

text \<open>Lines 376 to 386: the body before it is wrapped in the document.\<close>

definition composeBody :: "('d \<Rightarrow> string) \<Rightarrow> 'd SendOptions \<Rightarrow> string" where
  "composeBody fmt options =
     (let inputIsHtml = isHtml (so_body options);
          bodyHtml = (if inputIsHtml then so_body options
                      else ''<div>'' @ textToHtml (so_body options) @ ''</div>'')
      in case quotedMessage options of
           None \<Rightarrow> bodyHtml
         | Some msg \<Rightarrow> bodyHtml @ [LF] @ formatHtmlQuote fmt msg)"

text \<open>Lines 388 to 405: the options handed to the transport.\<close>

definition buildMailOptions :: "string \<Rightarrow> ('d \<Rightarrow> string) \<Rightarrow> 'd SendOptions \<Rightarrow> mailOptions" where
  "buildMailOptions smtpUser fmt options =
     (let fullHtml = wrapInHtmlDocument (composeBody fmt options);
          base = \<lparr>mo_from = smtpUser, mo_to = so_to options, mo_subject = so_subject options,
                  mo_html = fullHtml, mo_inReplyTo = None, mo_references = None\<rparr>
      in case inReplyTo options of
           None \<Rightarrow> base
         | Some irt \<Rightarrow>
             if irt = [] then base
             else base\<lparr>mo_inReplyTo := Some irt,
                       mo_references :=
                         Some (case so_references options of
                                 None \<Rightarrow> irt
                               | Some refs \<Rightarrow> if refs = [] then irt else refs @ '' '' @ irt)\<rparr>)"

subsection \<open>The mail store, the transport and the process\<close>

text \<open>What the process prints, and how an asynchronous function ends: it returns, it
  throws an error (kept as its message), or \<^verbatim>\<open>process.exit\<close> ends the process.\<close>

datatype line = Out string | Err string

datatype 'a outcome = Return 'a | Throw string | Exit nat

record address =
  addr_name :: "string option"
  addr_address :: "string option"

record 'd envelope =
  env_messageId :: "string option"
  env_from :: "address list option"
  env_to :: "address list option"
  env_subject :: "string option"
  env_date :: "'d option"
  env_inReplyTo :: "string option"

record 'd fetched =
  fetched_source :: string
  fetched_envelope :: "'d envelope"

text \<open>The collaborators are parameters: the credentials read from the environment, what
  each call of the ImapFlow client and of the nodemailer transport answers (\<open>Inl\<close> or
  \<open>Some\<close> is the message of the error it throws), the clock and the date format.\<close>

record 'd world =
  smtp_user :: string
  smtp_pass :: string
  imap_user :: string
  imap_pass :: string
  imap_connect :: "string option"
  imap_getMailboxLock :: "string option"
  imap_search :: "string \<Rightarrow> string + nat list"
  imap_fetchOne :: "nat \<Rightarrow> string + 'd fetched"
  imap_logout :: "string option"
  smtp_sendMail :: "mailOptions \<Rightarrow> string + string"
  new_Date :: 'd
  formatDate :: "'d \<Rightarrow> string"

definition credentials_hint :: string where
  "credentials_hint = ''Create ~/.config/claude-mailer/.env with your Proton Bridge credentials.''"

definition validateSmtpConfig :: "'d world \<Rightarrow> line list \<times> unit outcome" where
  "validateSmtpConfig w =
     (if smtp_user w = [] \<or> smtp_pass w = []
      then ([Err ''Error: SMTP_USER and SMTP_PASS environment variables required'',
             Err credentials_hint], Exit 1)
      else ([], Return ()))"

definition validateImapConfig :: "'d world \<Rightarrow> line list \<times> unit outcome" where
  "validateImapConfig w =
     (if imap_user w = [] \<or> imap_pass w = []
      then ([Err ''Error: IMAP_USER and IMAP_PASS environment variables required'',
             Err credentials_hint], Exit 1)
      else ([], Return ()))"

text \<open>\<^verbatim>\<open>messageId.replace(/^<|>$/g, "")\<close>\<close>

definition stripAngles :: "string \<Rightarrow> string" where
  "stripAngles s =
     (let t = (case s of [] \<Rightarrow> [] | c # r \<Rightarrow> if c = CHR ''<'' then r else s)
      in if t \<noteq> [] \<and> last t = CHR ''>'' then butlast t else t)"

text \<open>\<^verbatim>\<open>envelope.from?.[0]\<close> and the template that renders the address.\<close>

definition firstAddress :: "address list option \<Rightarrow> address option" where
  "firstAddress xs = (case xs of None \<Rightarrow> None | Some [] \<Rightarrow> None | Some (a # _) \<Rightarrow> Some a)"

definition showAddress :: "address option \<Rightarrow> string" where
  "showAddress a =
     (case a of
        None \<Rightarrow> ''Unknown''
      | Some x \<Rightarrow>
          trim (or_else (addr_name x) [] @ '' <''
                @ (case addr_address x of None \<Rightarrow> ''undefined'' | Some y \<Rightarrow> y) @ ''>''))"

text \<open>Lines 289 to 337, once the message is there; \<open>now\<close> is \<^verbatim>\<open>new Date()\<close>. \<open>None\<close> only if the boundary pattern
  is outside the model (see \<^const>\<open>partsOf\<close>).\<close>

definition buildFetched :: "'d \<Rightarrow> string \<Rightarrow> 'd fetched \<Rightarrow> 'd FetchedMessage option" where
  "buildFetched now msgId msg =
     (let env = fetched_envelope msg
      in map_option
           (\<lambda>(plainBody, htmlBody).
              \<lparr>messageId = or_else (env_messageId env) msgId,
               from = showAddress (firstAddress (env_from env)),
               to = showAddress (firstAddress (env_to env)),
               subject = or_else (env_subject env) ''(no subject)'',
               date = (case env_date env of None \<Rightarrow> now | Some d \<Rightarrow> d),
               body = trim plainBody,
               html = (if trim htmlBody = [] then None else Some (trim htmlBody)),
               references = env_inReplyTo env\<rparr>)
           (decompose (fetched_source msg)))"

text \<open>The \<^verbatim>\<open>try\<close> block of \<^verbatim>\<open>fetchMessageById\<close>.\<close>

definition fetchTry :: "'d world \<Rightarrow> string \<Rightarrow> 'd FetchedMessage option outcome" where
  "fetchTry w msgId =
     (case imap_search w (stripAngles msgId) of
        Inl e \<Rightarrow> Throw e
      | Inr [] \<Rightarrow> Return None
      | Inr (uid # _) \<Rightarrow>
          (case imap_fetchOne w uid of
             Inl e \<Rightarrow> Throw e
           | Inr msg \<Rightarrow>
               (case buildFetched (new_Date w) msgId msg of
                  None \<Rightarrow> Throw ''Invalid regular expression''
                | Some result \<Rightarrow> Return (Some result))))"

text \<open>The whole function: the \<^verbatim>\<open>finally\<close> block logs out after the \<^verbatim>\<open>try\<close> block,
  and an error thrown there replaces the result.\<close>

definition fetchMessageById :: "'d world \<Rightarrow> string \<Rightarrow> line list \<times> 'd FetchedMessage option outcome" where
  "fetchMessageById w msgId =
     (case validateImapConfig w of
        (ls, Exit n) \<Rightarrow> (ls, Exit n)
      | (ls, Throw e) \<Rightarrow> (ls, Throw e)
      | (ls, Return _) \<Rightarrow>
          (case imap_connect w of
             Some e \<Rightarrow> (ls, Throw e)
           | None \<Rightarrow>
               (case imap_getMailboxLock w of
                  Some e \<Rightarrow> (ls, Throw e)
                | None \<Rightarrow>
                    (let r = fetchTry w msgId
                     in case imap_logout w of
                          Some e \<Rightarrow> (ls, Throw e)
                        | None \<Rightarrow> (ls, r)))))"

definition sendEmail :: "'d world \<Rightarrow> 'd SendOptions \<Rightarrow> line list \<times> unit outcome" where
  "sendEmail w options =
     (case validateSmtpConfig w of
        (ls, Exit n) \<Rightarrow> (ls, Exit n)
      | (ls, Throw e) \<Rightarrow> (ls, Throw e)
      | (ls, Return _) \<Rightarrow>
          (case smtp_sendMail w (buildMailOptions (smtp_user w) (formatDate w) options) of
             Inl e \<Rightarrow> (ls, Throw e)
           | Inr infoId \<Rightarrow>
               (ls @ [Out (''Sent to '' @ so_to options @ '': '' @ so_subject options),
                      Out (''Message-ID: '' @ infoId)], Return ())))"

text \<open>The command line after \<^verbatim>\<open>parseArgs\<close>, and the text read from standard input.\<close>

record cli =
  cli_command :: "string option"
  cli_to :: "string option"
  cli_subject :: "string option"
  cli_quoteMessageId :: "string option"
  cli_inReplyTo :: "string option"
  cli_references :: "string option"
  cli_stdin :: string

definition printUsage :: "line list" where
  "printUsage =
     [Err ''Usage: bun run index.ts <send|reply> <to> <subject> [options]'',
      Err [],
      Err ''Commands:'',
      Err ''  send   Send a new email'',
      Err ''  reply  Send a reply with threading'',
      Err [],
      Err ''Options:'',
      Err ''  --quote-message-id=<id>  Message-ID to reply to (auto-fetches and quotes)'',
      Err ''  --in-reply-to=<id>       Message-ID for threading only (no quote)'',
      Err ''  --references=<ids>       Full references chain'',
      Err ''  --verbose                Enable debug output'',
      Err [],
      Err ''Input: Plain text or HTML via stdin.'',
      Err ''       For markdown, pipe through pandoc first:'',
      Err ''       cat msg.md | pandoc -f markdown -t html | bun run index.ts send ...'']"

text \<open>\<^verbatim>\<open>main().catch(...)\<close>: an error thrown anywhere is reported as \<^verbatim>\<open>Failed:\<close> with
  its message, and the process exits with status 1. The result is what was printed and
  the exit status.\<close>

definition finish :: "line list \<times> unit outcome \<Rightarrow> line list \<times> nat" where
  "finish r =
     (case r of
        (ls, Return _) \<Rightarrow> (ls, 0)
      | (ls, Exit n) \<Rightarrow> (ls, n)
      | (ls, Throw e) \<Rightarrow> (ls @ [Err (''Failed: '' @ e)], 1))"

definition main :: "'d world \<Rightarrow> cli \<Rightarrow> line list \<times> nat" where
  "main w args =
     (if \<not> truthy (cli_command args) \<or> cli_command args \<notin> {Some ''send'', Some ''reply''}
      then (printUsage, 1)
      else if \<not> truthy (cli_to args) \<or> \<not> truthy (cli_subject args)
      then (Err ''Error: <to> and <subject> are required'' # printUsage, 1)
      else if trim (cli_stdin args) = []
      then ([Err ''Error: No email body provided via stdin''], 1)
      else
        (let to = or_else (cli_to args) []; subject = or_else (cli_subject args) [];
             send = (\<lambda>ls irt refs quoted.
               (case sendEmail w \<lparr>so_to = to, so_subject = subject,
                                    so_body = trim (cli_stdin args), inReplyTo = irt,
                                    so_references = refs, quotedMessage = quoted\<rparr> of
                  (ls', r) \<Rightarrow> finish (ls @ ls', r)))
         in if truthy (cli_quoteMessageId args)
            then (let msgId = or_else (cli_quoteMessageId args) [];
                      ls0 = [Out (''Fetching message '' @ msgId @ ''...'')]
                  in case fetchMessageById w msgId of
                       (ls, Exit n) \<Rightarrow> (ls0 @ ls, n)
                     | (ls, Throw e) \<Rightarrow> finish (ls0 @ ls, Throw e)
                     | (ls, Return None) \<Rightarrow>
                         (ls0 @ ls @ [Err (''Error: Could not find message with ID '' @ msgId)], 1)
                     | (ls, Return (Some fetched)) \<Rightarrow>
                         send (ls0 @ ls) (Some msgId) (references fetched) (Some fetched))
            else send [] (cli_inReplyTo args) (cli_references args) None))"

subsection \<open>Notions used to state the properties of the decomposer\<close>

text \<open>The four texts that \<^verbatim>\<open>/\r?\n\r?\n/\<close> matches.\<close>

definition blank_seq :: "string \<Rightarrow> bool" where
  "blank_seq bl = (bl \<in> {[LF, LF], [CR, LF, LF], [LF, CR, LF], [CR, LF, CR, LF]})"

text \<open>A text in which the expression matches nowhere.\<close>

fun blank_free :: "string \<Rightarrow> bool" where
  "blank_free [] = True"
| "blank_free (c # r) = (blank_line (c # r) = None \<and> blank_free r)"

text \<open>A text that does not end in CR or LF, so that a match cannot begin in it and end
  after it.\<close>

definition clean_end :: "string \<Rightarrow> bool" where
  "clean_end s = (s = [] \<or> (last s \<noteq> CR \<and> last s \<noteq> LF))"

text \<open>The two tests of the loop over the parts. The second is the \<^verbatim>\<open>else if\<close>: it is
  only reached when the first fails.\<close>

definition declaresPlain :: "string \<Rightarrow> bool" where
  "declaresPlain part = str_includes part ''Content-Type: text/plain''"

definition declaresHtml :: "string \<Rightarrow> bool" where
  "declaresHtml part =
     (\<not> str_includes part ''Content-Type: text/plain''
      \<and> str_includes part ''Content-Type: text/html'')"

text \<open>The decoded content of the last part that passes a test, and the empty string when
  no part does.\<close>

definition lastContent :: "(string \<Rightarrow> bool) \<Rightarrow> string list \<Rightarrow> string" where
  "lastContent P parts =
     (case filter P parts of
        [] \<Rightarrow> []
      | p # ps \<Rightarrow> decodeQuotedPrintable (afterFirstBlank (last (p # ps))))"

text \<open>The text before the first blank-line sequence: all of it when there is none.\<close>

fun textBeforeBlank :: "string \<Rightarrow> string" where
  "textBeforeBlank [] = []"
| "textBeforeBlank (c # r) =
     (case blank_line (c # r) of Some rest \<Rightarrow> [] | None \<Rightarrow> c # textBeforeBlank r)"

text \<open>The text after the first blank-line sequence: nothing when there is none.\<close>

fun textAfterBlank :: "string \<Rightarrow> string" where
  "textAfterBlank [] = []"
| "textAfterBlank (c # r) =
     (case blank_line (c # r) of Some rest \<Rightarrow> rest | None \<Rightarrow> textAfterBlank r)"

text \<open>A text with every blank-line sequence, found from left to right, replaced by LF LF.\<close>

function normaliseBlank :: "string \<Rightarrow> string" where
  "normaliseBlank [] = []"
| "normaliseBlank (c # r) =
     (case blank_line (c # r) of
        Some rest \<Rightarrow> LF # LF # normaliseBlank rest
      | None \<Rightarrow> c # normaliseBlank r)"
  by pat_completeness auto
termination
  by (relation "measure length")
     (auto simp: blank_line_def eat_lf_def skip_cr_def split: list.splits if_splits option.splits)

text \<open>The content of the last part that passes a test, as the amended property words it:
  the text after the first blank-line sequence of the part, its further ones replaced
  by LF LF, and then decoded.\<close>

definition lastNormalised :: "(string \<Rightarrow> bool) \<Rightarrow> string list \<Rightarrow> string" where
  "lastNormalised P parts =
     (case filter P parts of
        [] \<Rightarrow> []
      | p # ps \<Rightarrow>
          decodeQuotedPrintable (normaliseBlank (textAfterBlank (last (p # ps)))))"

subsection \<open>The specification's reading of the HTML conversion\<close>

text \<open>The escape table of the specification, one character at a time; it is compared with
  \<^const>\<open>escapeHtml\<close> below.\<close>

definition html_entity :: "char \<Rightarrow> string" where
  "html_entity c =
     (if c = CHR ''&'' then ''&amp;''
      else if c = CHR ''<'' then ''&lt;''
      else if c = CHR ''>'' then ''&gt;''
      else if c = DQ then ''&quot;''
      else [c])"

text \<open>The inverse step of the round-trip property: every \<^verbatim>\<open><br>\<close> is removed. The source
  has no such function; this one follows the specification's words.\<close>

fun stripLineBreakTags :: "string \<Rightarrow> string" where
  "stripLineBreakTags [] = []"
| "stripLineBreakTags (c # r) =
     (if prefix ''<br>'' (c # r) then stripLineBreakTags (drop 3 r)
      else c # stripLineBreakTags r)"

section \<open>Properties of the HTML utilities\<close>

lemma replace_class_concat_map:
  "replace_class P f s = concat (map (\<lambda>c. if P c then f c else [c]) s)"
  by (induction s) simp_all

lemma replace_class_append:
  "replace_class P f (a @ b) = replace_class P f a @ replace_class P f b"
  by (induction a) simp_all

lemma replace_class_concat:
  "replace_class P f (concat (map g s)) = concat (map (\<lambda>c. replace_class P f (g c)) s)"
  by (induction s) (simp_all add: replace_class_append)

lemma escapeHtml_concat_map: "escapeHtml text = concat (map html_entity text)"
proof -
  have "escapeHtml text = concat (map (\<lambda>c. replace_class (\<lambda>x. x = DQ) (\<lambda>_. ''&quot;'')
          (replace_class (\<lambda>x. x = CHR ''>'') (\<lambda>_. ''&gt;'')
            (replace_class (\<lambda>x. x = CHR ''<'') (\<lambda>_. ''&lt;'')
              (if c = CHR ''&'' then ''&amp;'' else [c])))) text)"
    unfolding escapeHtml_def replace_char_def
    by (simp add: replace_class_concat replace_class_concat_map [of "\<lambda>x. x = CHR ''&''"])
  also have "\<dots> = concat (map html_entity text)"
    by (rule arg_cong [where f = concat], rule map_cong) (simp_all add: html_entity_def)
  finally show ?thesis .
qed

lemma textToHtml_concat_map:
  "textToHtml text = concat (map (\<lambda>c. if c = LF then ''<br>'' @ [LF] else html_entity c) text)"
proof -
  have "textToHtml text = concat (map (\<lambda>c. replace_class (\<lambda>x. x = LF) (\<lambda>_. ''<br>'' @ [LF]) (html_entity c)) text)"
    unfolding textToHtml_def replace_char_def escapeHtml_concat_map
    by (simp add: replace_class_concat)
  also have "\<dots> = concat (map (\<lambda>c. if c = LF then ''<br>'' @ [LF] else html_entity c) text)"
    by (rule arg_cong [where f = concat], rule map_cong) (simp_all add: html_entity_def)
  finally show ?thesis .
qed

lemma escapeHtml_single: "(escapeHtml [c] = [c]) = (c \<notin> {CHR ''&'', CHR ''<'', CHR ''>'', DQ})"
  by (simp add: escapeHtml_concat_map html_entity_def)

lemma strip_step:
  "stripLineBreakTags ((if c = LF then ''<br>'' @ [LF] else html_entity c) @ r)
     = html_entity c @ stripLineBreakTags r"
  by (simp add: html_entity_def)

lemma strip_textToHtml: "stripLineBreakTags (textToHtml text) = escapeHtml text"
  unfolding textToHtml_concat_map escapeHtml_concat_map
  by (induction "text") (simp_all only: list.map concat.simps strip_step stripLineBreakTags.simps)

lemma escapeHtml_id: "set text \<inter> {CHR ''&'', CHR ''<'', CHR ''>'', DQ} = {} \<Longrightarrow> escapeHtml text = text"
  unfolding escapeHtml_concat_map
  by (induction "text") (auto simp: html_entity_def)

lemma isHtml_needs_lt: "isHtml text \<Longrightarrow> CHR ''<'' \<in> set text"
  by (induction "text") auto



text \<open>
  C5, as the specification words it: the conversion escapes five HTML metacharacters and
  puts the line-break tag before the original line ending. The source escapes four: the
  apostrophe, the fifth metacharacter of HTML, is left as it is. Only the line feed is a
  line break for it: in a CR LF line ending the tag goes between the CR and the LF.
\<close>

theorem escapes_five_counterexample:
  "escapeHtml [CHR 0x27] = [CHR 0x27] \<and> textToHtml ''it's'' = ''it's''
   \<and> textToHtml (''a'' @ [CR, LF] @ ''b'') = ''a'' @ [CR] @ ''<br>'' @ [LF] @ ''b''"
  by (simp add: textToHtml_def escapeHtml_def replace_char_def)

text \<open>
  C5, amended: for every input string, the plain-text-to-HTML conversion escapes the four
  HTML metacharacters \<^verbatim>\<open>&\<close>, \<^verbatim>\<open><\<close>, \<^verbatim>\<open>>\<close> and the double quote, and no other
  character; each character of the input is escaped once (the ampersand first, so that
  the ampersand of an entity is not escaped again); then every line feed is replaced by
  a line-break tag followed by that line feed.
\<close>

theorem textToHtml_per_character:
  "escapeHtml s = concat (map html_entity s)
   \<and> (escapeHtml [c] = [c]) = (c \<notin> {CHR ''&'', CHR ''<'', CHR ''>'', DQ})
   \<and> textToHtml s = concat (map (\<lambda>c. if c = LF then ''<br>'' @ [LF] else html_entity c) s)"
  using escapeHtml_concat_map [of s] escapeHtml_single [of c] textToHtml_concat_map [of s]
  by blast

text \<open>
  C4, as the specification words it: for an input without a markup-like substring, the
  conversion followed by the removal of the inserted line-break tags gives the input
  back. The escapes stay, so an input with an ampersand does not come back.
\<close>

theorem round_trip_counterexample:
  "\<not> isHtml ''a & b'' \<and> stripLineBreakTags (textToHtml ''a & b'') = ''a &amp; b''"
  by (simp add: textToHtml_def escapeHtml_def replace_char_def)

text \<open>
  C4, amended: for every plain-text input string that contains none of the characters
  \<^verbatim>\<open>&\<close>, \<^verbatim>\<open><\<close>, \<^verbatim>\<open>>\<close> and the double quote (such an input has no markup-like
  substring), applying the plain-text-to-HTML transformation and then removing the
  inserted line-break tags reproduces the original input string exactly; for any input
  at all it reproduces the HTML-escaped input.
\<close>

theorem round_trip:
  "stripLineBreakTags (textToHtml s) = escapeHtml s
   \<and> (set s \<inter> {CHR ''&'', CHR ''<'', CHR ''>'', DQ} = {} \<longrightarrow>
        \<not> isHtml s \<and> stripLineBreakTags (textToHtml s) = s)"
  using strip_textToHtml [of s] escapeHtml_id [of s] isHtml_needs_lt [of s]
  by auto

theorem round_trip_witness:
  "stripLineBreakTags (textToHtml (''two'' @ [LF] @ ''lines'')) = ''two'' @ [LF] @ ''lines''"
proof -
  have "set (''two'' @ [LF] @ ''lines'') \<inter> {CHR ''&'', CHR ''<'', CHR ''>'', DQ} = {}"
    by simp
  with round_trip [of "''two'' @ [LF] @ ''lines''"] show ?thesis
    by blast
qed



section \<open>Properties of the quoted-printable decoder\<close>

lemma soft_break_local:
  "s \<noteq> [] \<Longrightarrow> soft_break (s @ CHR ''='' # t) = map_option (\<lambda>u. u @ CHR ''='' # t) (soft_break s)"
  by (auto simp: soft_break_def eat_lf_def skip_cr_def split: list.splits)

lemma qp_soft_at_eq: "qp_soft (a @ CHR ''='' # t) = qp_soft a @ qp_soft (CHR ''='' # t)"
proof (induction a rule: qp_soft.induct)
  case 1
  then show ?case by simp
next
  case (2 c r)
  show ?case
  proof (cases "soft_break (c # r)")
    case None
    with soft_break_local [of "c # r" t] have "soft_break ((c # r) @ CHR ''='' # t) = None" by simp
    with None 2 show ?thesis by simp
  next
    case (Some rest)
    with soft_break_local [of "c # r" t]
    have "soft_break ((c # r) @ CHR ''='' # t) = Some (rest @ CHR ''='' # t)" by simp
    with Some 2 show ?thesis by simp
  qed
qed

lemma qp_soft_other: "c \<noteq> CHR ''='' \<Longrightarrow> qp_soft (c # r) = c # qp_soft r"
  by (simp add: soft_break_def)

lemma qp_soft_lf: "qp_soft (CHR ''='' # LF # b) = qp_soft b"
  by (simp add: soft_break_def eat_lf_def skip_cr_def)

lemma qp_soft_crlf: "qp_soft (CHR ''='' # CR # LF # b) = qp_soft b"
  by (simp add: soft_break_def eat_lf_def skip_cr_def)

lemma qp_soft_no_break:
  "x \<noteq> LF \<Longrightarrow> \<not> (x = CR \<and> y = LF) \<Longrightarrow>
   qp_soft (CHR ''='' # x # y # b) = CHR ''='' # qp_soft (x # y # b)"
  by (auto simp: soft_break_def eat_lf_def skip_cr_def)

lemma not_hex_eq: "\<not> is_hex (CHR ''='')"
  by (simp add: is_hex_def)

lemma qp_hex_at_eq: "qp_hex (a @ CHR ''='' # t) = qp_hex a @ qp_hex (CHR ''='' # t)"
proof (induction a rule: qp_hex.induct)
  case (1 c a b r)
  then show ?case by simp
next
  case (2 c a)
  show ?case by (cases t) (simp_all add: not_hex_eq)
next
  case (3 c)
  show ?case by (cases t rule: qp_hex.cases) (simp_all add: not_hex_eq)
next
  case 4
  show ?case by simp
qed

lemma qp_hex_other: "c \<noteq> CHR ''='' \<Longrightarrow> qp_hex (c # r) = c # qp_hex r"
  by (cases "c # r" rule: qp_hex.cases) auto

lemma qp_hex_token: "is_hex h1 \<Longrightarrow> is_hex h2 \<Longrightarrow> qp_hex (CHR ''='' # h1 # h2 # b) = hex_char h1 h2 # qp_hex b"
  by simp

lemma qp_hex_malformed: "\<not> (is_hex x \<and> is_hex y) \<Longrightarrow> qp_hex (CHR ''='' # x # y # b) = CHR ''='' # qp_hex (x # y # b)"
  by auto

lemma qp_soft_id: "CHR ''='' \<notin> set s \<Longrightarrow> qp_soft s = s"
proof (induction s)
  case Nil
  then show ?case by simp
next
  case (Cons c s)
  then have "c \<noteq> CHR ''=''" by auto
  with Cons show ?case by (simp add: qp_soft_other del: qp_soft.simps)
qed

lemma qp_hex_id: "CHR ''='' \<notin> set s \<Longrightarrow> qp_hex s = s"
proof (induction s)
  case Nil
  then show ?case by simp
next
  case (Cons c s)
  then have "c \<noteq> CHR ''=''" by auto
  with Cons show ?case by (simp add: qp_hex_other del: qp_hex.simps)
qed

lemma hex_val_less: "is_hex c \<Longrightarrow> hex_val c < 16"
  by (auto simp: is_hex_def hex_val_def Let_def)

lemma hex_char_code: "is_hex a \<Longrightarrow> is_hex b \<Longrightarrow> (of_char (hex_char a b) :: nat) = 16 * hex_val a + hex_val b"
  using hex_val_less [of a] hex_val_less [of b] by (simp add: hex_char_def)

lemma hex_not_eq: "is_hex c \<Longrightarrow> c \<noteq> CHR ''=''"
  using not_hex_eq by blast


text \<open>
  C3, as the specification words it: every malformed \<^verbatim>\<open>=XX\<close> token is left in the output
  unmodified. A \<^verbatim>\<open>=\<close> among the two characters starts a soft line break or another token,
  and the token does not come out as it went in: a soft break inside \<^verbatim>\<open>=41\<close> is removed
  before the escape pass, which then decodes it; the second \<^verbatim>\<open>=\<close> of \<^verbatim>\<open>=Z=\<close> goes with the
  line feed after it; the \<^verbatim>\<open>=4\<close> of \<^verbatim>\<open>==4\<close> is decoded with the character after it.
\<close>

theorem malformed_token_counterexample:
  "decodeQuotedPrintable (''=4='' @ [LF] @ ''1'') = ''A''
   \<and> decodeQuotedPrintable (''=Z='' @ [LF]) = ''=Z''
   \<and> decodeQuotedPrintable ''==41'' = ''=A''"
  by code_simp

text \<open>
  C3, amended: for every input string, quoted-printable decoding is the soft-break pass
  followed by the escape pass. The soft-break pass removes each \<^verbatim>\<open>=\<close> that is directly
  followed by LF or CR LF, with that line ending and with nothing in its place. Each
  \<^verbatim>\<open>=XX\<close> with two hexadecimal digits is replaced by the one character with that code. A
  malformed token is left as it is and nothing is raised: the escape pass keeps a \<^verbatim>\<open>=\<close>
  that is not followed by two hexadecimal digits, and the decoder returns \<^verbatim>\<open>=XX\<close>
  unchanged when the two characters are not both hexadecimal digits, neither of them is
  a \<^verbatim>\<open>=\<close>, and they do not start with a line ending (LF, or CR LF). A string without
  \<^verbatim>\<open>=\<close> is returned unchanged.
\<close>

theorem quoted_printable_decoding:
  "decodeQuotedPrintable s = qp_hex (qp_soft s)
   \<and> qp_soft (a @ CHR ''='' # LF # b) = qp_soft a @ qp_soft b
   \<and> qp_soft (a @ CHR ''='' # CR # LF # b) = qp_soft a @ qp_soft b
   \<and> (is_hex h1 \<and> is_hex h2 \<longrightarrow>
        decodeQuotedPrintable (a @ CHR ''='' # h1 # h2 # b)
          = decodeQuotedPrintable a @ hex_char h1 h2 # decodeQuotedPrintable b
        \<and> (of_char (hex_char h1 h2) :: nat) = 16 * hex_val h1 + hex_val h2)
   \<and> (\<not> (is_hex x \<and> is_hex y) \<longrightarrow>
        qp_hex (a @ CHR ''='' # x # y # b) = qp_hex a @ CHR ''='' # qp_hex (x # y # b))
   \<and> (\<not> (is_hex x \<and> is_hex y) \<and> x \<noteq> CHR ''='' \<and> y \<noteq> CHR ''=''
        \<and> x \<noteq> LF \<and> \<not> (x = CR \<and> y = LF) \<longrightarrow>
        decodeQuotedPrintable (a @ CHR ''='' # x # y # b)
          = decodeQuotedPrintable a @ CHR ''='' # x # y # decodeQuotedPrintable b)
   \<and> (CHR ''='' \<notin> set s \<longrightarrow> decodeQuotedPrintable s = s)"
proof -
  have soft_lf: "qp_soft (a @ CHR ''='' # LF # b) = qp_soft a @ qp_soft b"
    by (simp only: qp_soft_at_eq qp_soft_lf)
  have soft_crlf: "qp_soft (a @ CHR ''='' # CR # LF # b) = qp_soft a @ qp_soft b"
    by (simp only: qp_soft_at_eq qp_soft_crlf)
  have token: "decodeQuotedPrintable (a @ CHR ''='' # h1 # h2 # b)
          = decodeQuotedPrintable a @ hex_char h1 h2 # decodeQuotedPrintable b"
    if h: "is_hex h1" "is_hex h2"
  proof -
    from h have ne: "h1 \<noteq> CHR ''=''" "h2 \<noteq> CHR ''=''" "h1 \<noteq> LF" "\<not> (h1 = CR \<and> h2 = LF)"
      by (auto simp: is_hex_def)
    have "qp_soft (a @ CHR ''='' # h1 # h2 # b) = qp_soft a @ CHR ''='' # h1 # h2 # qp_soft b"
      by (simp only: qp_soft_at_eq qp_soft_no_break [OF ne(3,4)] qp_soft_other [OF ne(1)]
            qp_soft_other [OF ne(2)])
    then show ?thesis
      by (simp only: decodeQuotedPrintable_def qp_hex_at_eq qp_hex_token [OF h])
  qed
  have malformed: "decodeQuotedPrintable (a @ CHR ''='' # x # y # b)
          = decodeQuotedPrintable a @ CHR ''='' # x # y # decodeQuotedPrintable b"
    if m: "\<not> (is_hex x \<and> is_hex y)" and ne: "x \<noteq> CHR ''=''" "y \<noteq> CHR ''=''"
      and nb: "x \<noteq> LF" "\<not> (x = CR \<and> y = LF)"
  proof -
    have "qp_soft (a @ CHR ''='' # x # y # b) = qp_soft a @ CHR ''='' # x # y # qp_soft b"
      by (simp only: qp_soft_at_eq qp_soft_no_break [OF nb] qp_soft_other [OF ne(1)]
            qp_soft_other [OF ne(2)])
    then show ?thesis
      by (simp only: decodeQuotedPrintable_def qp_hex_at_eq qp_hex_malformed [OF m]
            qp_hex_other [OF ne(1)] qp_hex_other [OF ne(2)])
  qed
  have ident: "decodeQuotedPrintable s = s" if "CHR ''='' \<notin> set s"
    using that by (simp add: decodeQuotedPrintable_def qp_soft_id qp_hex_id)
  have pass: "qp_hex (a @ CHR ''='' # x # y # b) = qp_hex a @ CHR ''='' # qp_hex (x # y # b)"
    if "\<not> (is_hex x \<and> is_hex y)"
    by (simp only: qp_hex_at_eq qp_hex_malformed [OF that])
  show ?thesis
    using soft_lf soft_crlf token pass malformed ident hex_char_code [of h1 h2]
    by (simp add: decodeQuotedPrintable_def)
qed

theorem quoted_printable_decoding_witness:
  "decodeQuotedPrintable ''Caf=C3=A9'' = [CHR ''C'', CHR ''a'', CHR ''f'', CHR 0xC3, CHR 0xA9]
   \<and> decodeQuotedPrintable ''50=ZZ off'' = ''50=ZZ off''
   \<and> decodeQuotedPrintable (''soft='' @ [CR, LF] @ ''break'') = ''softbreak''
   \<and> decodeQuotedPrintable ''plain text'' = ''plain text''"
proof -
  note unfold = quoted_printable_decoding [THEN conjunct1]
  note soft_crlf = quoted_printable_decoding [THEN conjunct2, THEN conjunct2, THEN conjunct1]
  note token = quoted_printable_decoding [THEN conjunct2, THEN conjunct2, THEN conjunct2,
      THEN conjunct1, rule_format, THEN conjunct1]
  note malformed = quoted_printable_decoding [THEN conjunct2, THEN conjunct2, THEN conjunct2,
      THEN conjunct2, THEN conjunct2, THEN conjunct1, rule_format]
  note ident = quoted_printable_decoding [THEN conjunct2, THEN conjunct2, THEN conjunct2,
      THEN conjunct2, THEN conjunct2, THEN conjunct2, rule_format]
  have chars: "hex_char (CHR ''C'') (CHR ''3'') = CHR 0xC3"
    "hex_char (CHR ''A'') (CHR ''9'') = CHR 0xA9"
    by code_simp+
  have plain: "decodeQuotedPrintable ''Caf'' = ''Caf''" "decodeQuotedPrintable [] = []"
    "decodeQuotedPrintable ''50'' = ''50''" "decodeQuotedPrintable '' off'' = '' off''"
    "decodeQuotedPrintable ''plain text'' = ''plain text''"
    "decodeQuotedPrintable ''softbreak'' = ''softbreak''"
    by (rule ident, simp)+
  have "decodeQuotedPrintable ([] @ CHR ''='' # CHR ''A'' # CHR ''9'' # [])
      = decodeQuotedPrintable [] @ hex_char (CHR ''A'') (CHR ''9'') # decodeQuotedPrintable []"
    by (rule token) (simp add: is_hex_def)
  then have a9: "decodeQuotedPrintable ''=A9'' = [CHR 0xA9]"
    by (simp only: plain chars append_Nil)
  have "decodeQuotedPrintable (''Caf'' @ CHR ''='' # CHR ''C'' # CHR ''3'' # ''=A9'')
      = decodeQuotedPrintable ''Caf'' @ hex_char (CHR ''C'') (CHR ''3'') # decodeQuotedPrintable ''=A9''"
    by (rule token) (simp add: is_hex_def)
  then have cafe: "decodeQuotedPrintable ''Caf=C3=A9'' = [CHR ''C'', CHR ''a'', CHR ''f'', CHR 0xC3, CHR 0xA9]"
    by (simp only: plain chars a9 append.simps)
  have "decodeQuotedPrintable (''50'' @ CHR ''='' # CHR ''Z'' # CHR ''Z'' # '' off'')
      = decodeQuotedPrintable ''50'' @ CHR ''='' # CHR ''Z'' # CHR ''Z'' # decodeQuotedPrintable '' off''"
    by (rule malformed) (simp add: is_hex_def)
  then have zz: "decodeQuotedPrintable ''50=ZZ off'' = ''50=ZZ off''"
    by (simp only: plain append.simps)
  have "qp_soft (''soft'' @ CHR ''='' # CR # LF # ''break'') = qp_soft ''soft'' @ qp_soft ''break''"
    by (rule soft_crlf)
  moreover have "qp_soft ''soft'' = ''soft''" "qp_soft ''break'' = ''break''"
    by (simp_all add: soft_break_def)
  moreover have "decodeQuotedPrintable (''soft'' @ CHR ''='' # CR # LF # ''break'')
      = qp_hex (qp_soft (''soft'' @ CHR ''='' # CR # LF # ''break''))"
    by (rule unfold)
  moreover have "qp_hex ''softbreak'' = ''softbreak''"
    by simp
  ultimately have soft: "decodeQuotedPrintable (''soft='' @ [CR, LF] @ ''break'') = ''softbreak''"
    by simp
  from cafe zz soft plain(5) show ?thesis by blast
qed

section \<open>Properties of the decomposer\<close>

lemma blank_line_seq: "blank_seq bl \<Longrightarrow> blank_line (bl @ b) = Some b"
  by (auto simp: blank_seq_def blank_line_def eat_lf_def skip_cr_def)

lemma blank_line_local:
  "blank_seq bl \<Longrightarrow> clean_end (c # r) \<Longrightarrow> blank_line (c # r) = None \<Longrightarrow>
   blank_line ((c # r) @ bl @ b) = None"
  by (auto simp: blank_seq_def clean_end_def blank_line_def eat_lf_def skip_cr_def
      split: list.splits if_splits option.splits)

lemma clean_end_tl: "clean_end (c # r) \<Longrightarrow> clean_end r"
  by (auto simp: clean_end_def)

lemma split_blank_first:
  "blank_free a \<Longrightarrow> clean_end a \<Longrightarrow> blank_seq bl \<Longrightarrow> split_blank (a @ bl @ b) = a # split_blank b"
proof (induction a)
  case Nil
  then obtain x y where "bl @ b = x # y" by (cases "bl @ b") (auto simp: blank_seq_def)
  with blank_line_seq [OF Nil(3), of b] show ?case by simp
next
  case (Cons c r)
  from Cons.prems have "blank_line ((c # r) @ bl @ b) = None"
    by (intro blank_line_local) simp_all
  moreover from Cons have "split_blank (r @ bl @ b) = r # split_blank b"
    by (simp add: clean_end_tl)
  ultimately show ?case by simp
qed

lemma split_blank_free: "blank_free a \<Longrightarrow> split_blank a = [a]"
  by (induction a) simp_all

lemma not_syntax_literal:
  "\<not> syntax_char c \<Longrightarrow> literal_of_pattern (c # r) = map_option ((#) c) (literal_of_pattern r)"
  by (cases r) (auto simp: syntax_char_def)

lemma literal_escapeRegExp: "literal_of_pattern (escapeRegExp b) = Some b"
proof (induction b)
  case Nil
  then show ?case by (simp add: escapeRegExp_def)
next
  case (Cons c r)
  then show ?case
    by (cases "syntax_char c") (simp_all add: escapeRegExp_def not_syntax_literal)
qed

lemma literal_boundary: "literal_of_pattern (''--'' @ escapeRegExp b) = Some (''--'' @ b)"
proof -
  have "\<not> syntax_char (CHR ''-'')" by (simp add: syntax_char_def)
  then show ?thesis by (simp add: not_syntax_literal literal_escapeRegExp del: literal_of_pattern.simps)
qed

lemma partsOf_literal: "partsOf b raw = Some (split_lit (''--'' @ b) raw)"
  unfolding partsOf_def by (simp only: literal_boundary option.map)

lemma scanParts_last:
  "scanParts parts (p, h) =
     (case filter declaresPlain parts of
        [] \<Rightarrow> p | y # ys \<Rightarrow> decodeQuotedPrintable (afterFirstBlank (last (y # ys))),
      case filter declaresHtml parts of
        [] \<Rightarrow> h | y # ys \<Rightarrow> decodeQuotedPrintable (afterFirstBlank (last (y # ys))))"
proof (induction parts arbitrary: p h)
  case Nil
  then show ?case by simp
next
  case (Cons x xs)
  show ?case
    by (simp add: Cons.IH declaresPlain_def declaresHtml_def split: list.splits)
qed

lemma str_includes_iff: "str_includes s n = (\<exists>a b. s = a @ n @ b)"
proof (induction s)
  case Nil
  then show ?case by simp
next
  case (Cons c r)
  show ?case
  proof
    assume "str_includes (c # r) n"
    then consider "prefix n (c # r)" | "str_includes r n" by auto
    then show "\<exists>a b. c # r = a @ n @ b"
    proof cases
      case 1
      then obtain b where "c # r = n @ b" by (auto simp: prefix_def)
      then have "c # r = [] @ n @ b" by simp
      then show ?thesis by blast
    next
      case 2
      with Cons obtain a b where "r = a @ n @ b" by blast
      then have "c # r = (c # a) @ n @ b" by simp
      then show ?thesis by blast
    qed
  next
    assume "\<exists>a b. c # r = a @ n @ b"
    then obtain a b where eq: "c # r = a @ n @ b" by blast
    show "str_includes (c # r) n"
    proof (cases a)
      case Nil
      with eq have "prefix n (c # r)" by (simp add: prefix_def)
      then show ?thesis by simp
    next
      case (Cons x a')
      with eq have "r = a' @ n @ b" by simp
      with Cons.IH have "str_includes r n" by blast
      then show ?thesis by simp
    qed
  qed
qed

lemma split_blank_nonempty: "split_blank s \<noteq> []"
  by (cases s) (simp_all split: option.splits list.splits)

lemma join_cons: "ps \<noteq> [] \<Longrightarrow> join sep (p # ps) = p @ sep @ join sep ps"
  by (cases ps) simp_all

lemma decompose_single: "boundaryMatch (headersOf src) = None \<Longrightarrow>
  decompose src = Some (decodeQuotedPrintable (rawBodyOf src), [])"
  by (simp add: decompose_def)

lemma decompose_multi: "boundaryMatch (headersOf src) = Some bd \<Longrightarrow>
  decompose src = Some (lastContent declaresPlain (split_lit (''--'' @ bd) (rawBodyOf src)),
                        lastContent declaresHtml (split_lit (''--'' @ bd) (rawBodyOf src)))"
  by (simp add: decompose_def partsOf_literal scanParts_last lastContent_def Let_def)

lemma decompose_total: "\<exists>r. decompose src = Some r"
  using decompose_single [of src] decompose_multi [of src]
  by (cases "boundaryMatch (headersOf src)") simp_all

lemma join_push: "join sep ((c # p) # ps) = c # join sep (p # ps)"
  by (cases ps) simp_all

lemma join_split_normalise: "join [LF, LF] (split_blank s) = normaliseBlank s"
proof (induction s rule: split_blank.induct)
  case 1
  show ?case by simp
next
  case (2 c r)
  show ?case
  proof (cases "blank_line (c # r)")
    case None
    obtain p ps where sp: "split_blank r = p # ps"
      using split_blank_nonempty [of r] by (cases "split_blank r") auto
    from 2 None sp have "join [LF, LF] (p # ps) = normaliseBlank r"
      by simp
    with None sp show ?thesis
      by (simp add: join_push)
  next
    case (Some rest)
    from 2 Some have "join [LF, LF] (split_blank rest) = normaliseBlank rest" by simp
    with Some split_blank_nonempty [of rest] show ?thesis
      by (simp add: join_cons)
  qed
qed

lemma headersOf_before: "headersOf s = textBeforeBlank s"
proof (induction s rule: split_blank.induct)
  case 1
  show ?case by (simp add: headersOf_def)
next
  case (2 c r)
  show ?case
  proof (cases "blank_line (c # r)")
    case None
    obtain p ps where sp: "split_blank r = p # ps"
      using split_blank_nonempty [of r] by (cases "split_blank r") auto
    with 2 None have "p = textBeforeBlank r"
      by (simp add: headersOf_def)
    with None sp show ?thesis
      by (simp add: headersOf_def)
  next
    case (Some rest)
    then show ?thesis by (simp add: headersOf_def)
  qed
qed

lemma afterFirstBlank_normalise: "afterFirstBlank s = normaliseBlank (textAfterBlank s)"
proof (induction s rule: split_blank.induct)
  case 1
  show ?case by (simp add: afterFirstBlank_def)
next
  case (2 c r)
  show ?case
  proof (cases "blank_line (c # r)")
    case None
    obtain p ps where sp: "split_blank r = p # ps"
      using split_blank_nonempty [of r] by (cases "split_blank r") auto
    with 2 None have "join [LF, LF] ps = normaliseBlank (textAfterBlank r)"
      by (simp add: afterFirstBlank_def)
    with None sp show ?thesis
      by (simp add: afterFirstBlank_def)
  next
    case (Some rest)
    then show ?thesis
      by (simp add: afterFirstBlank_def join_split_normalise)
  qed
qed

lemma rawBodyOf_normalise: "rawBodyOf s = normaliseBlank (textAfterBlank s)"
  by (simp add: rawBodyOf_def afterFirstBlank_normalise)

lemma before_after_shape:
  "blank_free h \<Longrightarrow> clean_end h \<Longrightarrow> blank_seq bl \<Longrightarrow>
   textBeforeBlank (h @ bl @ b) = h \<and> textAfterBlank (h @ bl @ b) = b"
proof (induction h)
  case Nil
  then obtain x y where "bl @ b = x # y" by (cases "bl @ b") (auto simp: blank_seq_def)
  with blank_line_seq [OF Nil(3), of b] show ?case by simp
next
  case (Cons c r)
  from Cons.prems have "blank_line ((c # r) @ bl @ b) = None"
    by (intro blank_line_local) simp_all
  moreover from Cons have "textBeforeBlank (r @ bl @ b) = r \<and> textAfterBlank (r @ bl @ b) = b"
    by (simp add: clean_end_tl)
  ultimately show ?case by simp
qed

lemma normaliseBlank_free: "blank_free b \<Longrightarrow> normaliseBlank b = b"
  by (induction b) simp_all

lemma normaliseBlank_shape:
  "blank_free a \<Longrightarrow> clean_end a \<Longrightarrow> blank_seq bl \<Longrightarrow>
   normaliseBlank (a @ bl @ b) = a @ [LF, LF] @ normaliseBlank b"
  using split_blank_first [of a bl b] split_blank_nonempty [of b]
    join_split_normalise [of "a @ bl @ b"] join_split_normalise [of b]
  by (simp add: join_cons)

lemma lastContent_normalised: "lastContent P parts = lastNormalised P parts"
  by (simp add: lastContent_def lastNormalised_def afterFirstBlank_normalise split: list.splits)

lemma decompose_single_normalised: "boundaryMatch (headersOf src) = None \<Longrightarrow>
  decompose src = Some (decodeQuotedPrintable (normaliseBlank (textAfterBlank src)), [])"
  using decompose_single [of src] by (simp add: rawBodyOf_normalise)

lemma decompose_multi_normalised: "boundaryMatch (headersOf src) = Some bd \<Longrightarrow>
  decompose src =
    Some (lastNormalised declaresPlain (split_lit (''--'' @ bd) (normaliseBlank (textAfterBlank src))),
          lastNormalised declaresHtml (split_lit (''--'' @ bd) (normaliseBlank (textAfterBlank src))))"
  using decompose_multi [of src bd]
  by (simp add: rawBodyOf_normalise lastContent_normalised)

text \<open>
  C6, as the specification words it: without a boundary parameter the plain body is the
  decoding of everything after the first blank-line boundary. The body block is rejoined
  first: a later blank-line sequence of the body, here CR LF CR LF, reaches the decoder
  as LF LF, so the plain body is not the decoding of the text after the boundary.
\<close>

theorem body_block_counterexample:
  "boundaryMatch (headersOf (''Subject: x'' @ [CR, LF, CR, LF]
       @ ''Dear A,'' @ [CR, LF, CR, LF] @ ''Bye'')) = None
   \<and> textAfterBlank (''Subject: x'' @ [CR, LF, CR, LF]
       @ ''Dear A,'' @ [CR, LF, CR, LF] @ ''Bye'') = ''Dear A,'' @ [CR, LF, CR, LF] @ ''Bye''
   \<and> decodeQuotedPrintable (''Dear A,'' @ [CR, LF, CR, LF] @ ''Bye'')
       = ''Dear A,'' @ [CR, LF, CR, LF] @ ''Bye''
   \<and> decompose (''Subject: x'' @ [CR, LF, CR, LF]
       @ ''Dear A,'' @ [CR, LF, CR, LF] @ ''Bye'') = Some (''Dear A,'' @ [LF, LF] @ ''Bye'', [])"
  by code_simp

text \<open>
  C6, amended: for every raw message source whose headers (the text before the first
  blank-line sequence) contain no boundary parameter, decomposition treats the body
  block, which is everything after the first blank-line sequence with each further
  blank-line sequence in it replaced by LF LF, as plain text after quoted-printable
  decoding, and the HTML body is empty: the fetched message has the trimmed decoding as
  \<open>body\<close> and no \<open>html\<close>. In particular a boundary-less message with body
  \<^verbatim>\<open>plain text only\<close> yields the plain body \<^verbatim>\<open>plain text only\<close> and no HTML body.
\<close>

theorem single_part_fallback:
  "(boundaryMatch (headersOf src) = None \<longrightarrow>
      decompose src = Some (decodeQuotedPrintable (normaliseBlank (textAfterBlank src)), [])
      \<and> (\<exists>m. buildFetched now msgId \<lparr>fetched_source = src, fetched_envelope = env\<rparr> = Some m
             \<and> body m = trim (decodeQuotedPrintable (normaliseBlank (textAfterBlank src)))
             \<and> html m = None))
   \<and> headersOf src = textBeforeBlank src
   \<and> (blank_free h \<and> clean_end h \<and> blank_seq bl \<longrightarrow>
        textBeforeBlank (h @ bl @ b) = h \<and> textAfterBlank (h @ bl @ b) = b)
   \<and> (blank_free b \<longrightarrow> normaliseBlank b = b)
   \<and> (blank_free a \<and> clean_end a \<and> blank_seq bl \<longrightarrow>
        normaliseBlank (a @ bl @ b) = a @ [LF, LF] @ normaliseBlank b)"
proof -
  have "decompose src = Some (decodeQuotedPrintable (normaliseBlank (textAfterBlank src)), [])
      \<and> (\<exists>m. buildFetched now msgId \<lparr>fetched_source = src, fetched_envelope = env\<rparr> = Some m
             \<and> body m = trim (decodeQuotedPrintable (normaliseBlank (textAfterBlank src)))
             \<and> html m = None)"
    if "boundaryMatch (headersOf src) = None"
    using decompose_single_normalised [OF that] by (simp add: buildFetched_def trim_def)
  moreover have "textBeforeBlank (h @ bl @ b) = h \<and> textAfterBlank (h @ bl @ b) = b"
    if "blank_free h \<and> clean_end h \<and> blank_seq bl"
    using that before_after_shape [of h bl b] by blast
  moreover have "normaliseBlank (a @ bl @ b) = a @ [LF, LF] @ normaliseBlank b"
    if "blank_free a \<and> clean_end a \<and> blank_seq bl"
    using that normaliseBlank_shape [of a bl b] by blast
  ultimately show ?thesis
    using headersOf_before [of src] normaliseBlank_free [of b] by blast
qed

theorem single_part_fallback_witness:
  "map_option body (buildFetched () ''<id@x>''
      \<lparr>fetched_source = ''Subject: x'' @ [CR, LF, CR, LF] @ ''plain text only'',
       fetched_envelope = \<lparr>env_messageId = None, env_from = None, env_to = None,
         env_subject = None, env_date = None, env_inReplyTo = None\<rparr>\<rparr>)
     = Some ''plain text only''
   \<and> map_option html (buildFetched () ''<id@x>''
      \<lparr>fetched_source = ''Subject: x'' @ [CR, LF, CR, LF] @ ''plain text only'',
       fetched_envelope = \<lparr>env_messageId = None, env_from = None, env_to = None,
         env_subject = None, env_date = None, env_inReplyTo = None\<rparr>\<rparr>)
     = Some None
   \<and> decompose (''Subject: x'' @ [CR, LF, CR, LF] @ ''Caf=C3=A9 ='' @ [CR, LF] @ ''au lait''
        @ [CR, LF, CR, LF] @ ''merci'')
     = Some (''Caf'' @ [CHR 0xC3, CHR 0xA9] @ '' au lait'' @ [LF, LF] @ ''merci'', [])"
proof -
  let ?s1 = "''Subject: x'' @ [CR, LF, CR, LF] @ ''plain text only''"
  let ?s2 = "''Subject: x'' @ [CR, LF, CR, LF] @ ''Caf=C3=A9 ='' @ [CR, LF] @ ''au lait''
        @ [CR, LF, CR, LF] @ ''merci''"
  have shape: "blank_free ''Subject: x'' \<and> clean_end ''Subject: x'' \<and> blank_seq [CR, LF, CR, LF]"
    by code_simp
  have free: "blank_free ''plain text only''"
    by code_simp
  note cut = single_part_fallback [THEN conjunct2, THEN conjunct2, THEN conjunct1, rule_format,
      OF shape]
  note same = single_part_fallback [THEN conjunct2, THEN conjunct2, THEN conjunct2,
      THEN conjunct1, rule_format, OF free]
  note hdr = single_part_fallback [THEN conjunct2, THEN conjunct1]
  have h1: "headersOf ?s1 = ''Subject: x''"
    using hdr [of ?s1] cut [of "''plain text only''"] by simp
  have b1: "normaliseBlank (textAfterBlank ?s1) = ''plain text only''"
    using cut [of "''plain text only''"] same by simp
  have h2: "headersOf ?s2 = ''Subject: x''"
    using hdr [of ?s2]
      cut [of "''Caf=C3=A9 ='' @ [CR, LF] @ ''au lait'' @ [CR, LF, CR, LF] @ ''merci''"]
    by simp
  have nob: "boundaryMatch ''Subject: x'' = None"
    by code_simp
  have tr: "trim (decodeQuotedPrintable ''plain text only'') = ''plain text only''"
    by code_simp
  have dec: "decodeQuotedPrintable (normaliseBlank (textAfterBlank ?s2))
      = ''Caf'' @ [CHR 0xC3, CHR 0xA9] @ '' au lait'' @ [LF, LF] @ ''merci''"
    by code_simp
  from nob h1 have n1: "boundaryMatch (headersOf ?s1) = None"
    by simp
  from nob h2 have n2: "boundaryMatch (headersOf ?s2) = None"
    by simp
  from single_part_fallback [THEN conjunct1, rule_format, OF n1, THEN conjunct2,
      of "()" "''<id@x>''" "\<lparr>env_messageId = None, env_from = None, env_to = None,
         env_subject = None, env_date = None, env_inReplyTo = None\<rparr>"]
  have first: "map_option body (buildFetched () ''<id@x>''
      \<lparr>fetched_source = ?s1,
       fetched_envelope = \<lparr>env_messageId = None, env_from = None, env_to = None,
         env_subject = None, env_date = None, env_inReplyTo = None\<rparr>\<rparr>)
     = Some ''plain text only''
   \<and> map_option html (buildFetched () ''<id@x>''
      \<lparr>fetched_source = ?s1,
       fetched_envelope = \<lparr>env_messageId = None, env_from = None, env_to = None,
         env_subject = None, env_date = None, env_inReplyTo = None\<rparr>\<rparr>)
     = Some None"
    unfolding b1 tr by auto
  from single_part_fallback [THEN conjunct1, rule_format, OF n2, THEN conjunct1]
  have second: "decompose ?s2
     = Some (''Caf'' @ [CHR 0xC3, CHR 0xA9] @ '' au lait'' @ [LF, LF] @ ''merci'', [])"
    unfolding dec .
  from first second show ?thesis by blast
qed

text \<open>
  C1, as the specification words it: of several parts of one declared type only the first
  is kept. The loop assigns the variable again at each such part, so the last one stays:
  with two \<^verbatim>\<open>text/plain\<close> parts \<^verbatim>\<open>first\<close> and \<^verbatim>\<open>second\<close>, the body is \<^verbatim>\<open>second\<close>.
\<close>

theorem first_part_kept_counterexample:
  "map_option body (buildFetched () ''<id@x>''
      \<lparr>fetched_source =
         ''Content-Type: multipart/mixed; boundary=XYZ'' @ [CR, LF, CR, LF]
         @ ''--XYZ'' @ [CR, LF] @ ''Content-Type: text/plain'' @ [CR, LF, CR, LF]
         @ ''first'' @ [CR, LF]
         @ ''--XYZ'' @ [CR, LF] @ ''Content-Type: text/plain'' @ [CR, LF, CR, LF]
         @ ''second'' @ [CR, LF]
         @ ''--XYZ--'' @ [CR, LF],
       fetched_envelope = \<lparr>env_messageId = None, env_from = None, env_to = None,
         env_subject = None, env_date = None, env_inReplyTo = None\<rparr>\<rparr>)
     = Some ''second''"
  by code_simp

text \<open>
  C1, amended: for every multipart raw message source (headers containing a boundary
  parameter), the decomposer splits the body on the literal text \<^verbatim>\<open>--\<close> followed by the
  boundary and, among the resulting parts, keeps only the last part containing
  \<^verbatim>\<open>Content-Type: text/plain\<close> as the plain body, and only the last part that contains
  \<^verbatim>\<open>Content-Type: text/html\<close> and not \<^verbatim>\<open>Content-Type: text/plain\<close> as the HTML body; a
  later part of the same declared type replaces the earlier one, and nothing is merged.
\<close>

theorem multipart_last_part:
  "(boundaryMatch (headersOf src) = Some bd \<longrightarrow>
      partsOf bd (rawBodyOf src) = Some (split_lit (''--'' @ bd) (rawBodyOf src))
      \<and> decompose src =
          Some (lastContent declaresPlain (split_lit (''--'' @ bd) (rawBodyOf src)),
                lastContent declaresHtml (split_lit (''--'' @ bd) (rawBodyOf src))))
   \<and> scanParts parts ([], []) = (lastContent declaresPlain parts, lastContent declaresHtml parts)
   \<and> declaresPlain part = (\<exists>a b. part = a @ ''Content-Type: text/plain'' @ b)
   \<and> declaresHtml part = ((\<nexists>a b. part = a @ ''Content-Type: text/plain'' @ b)
                           \<and> (\<exists>a b. part = a @ ''Content-Type: text/html'' @ b))"
  using decompose_multi [of src bd] partsOf_literal [of bd "rawBodyOf src"]
    scanParts_last [of parts "[]" "[]"]
  by (simp add: lastContent_def declaresPlain_def declaresHtml_def str_includes_iff)

theorem multipart_last_part_witness:
  "decompose
     (''Content-Type: multipart/alternative; boundary='' @ [DQ] @ ''XYZ'' @ [DQ]
      @ [CR, LF, CR, LF]
      @ ''--XYZ'' @ [CR, LF] @ ''Content-Type: text/plain'' @ [CR, LF, CR, LF]
      @ ''Hello'' @ [CR, LF]
      @ ''--XYZ'' @ [CR, LF] @ ''Content-Type: text/html'' @ [CR, LF, CR, LF]
      @ ''<p>Hello</p>'' @ [CR, LF]
      @ ''--XYZ--'' @ [CR, LF])
   = Some (''Hello'' @ [CR, LF], ''<p>Hello</p>'' @ [CR, LF])"
proof -
  let ?src = "''Content-Type: multipart/alternative; boundary='' @ [DQ] @ ''XYZ'' @ [DQ]
      @ [CR, LF, CR, LF]
      @ ''--XYZ'' @ [CR, LF] @ ''Content-Type: text/plain'' @ [CR, LF, CR, LF]
      @ ''Hello'' @ [CR, LF]
      @ ''--XYZ'' @ [CR, LF] @ ''Content-Type: text/html'' @ [CR, LF, CR, LF]
      @ ''<p>Hello</p>'' @ [CR, LF]
      @ ''--XYZ--'' @ [CR, LF]"
  have bd: "boundaryMatch (headersOf ?src) = Some ''XYZ''"
    by code_simp
  have pl: "lastContent declaresPlain (split_lit (''--'' @ ''XYZ'') (rawBodyOf ?src)) = ''Hello'' @ [CR, LF]"
    by code_simp
  have ht: "lastContent declaresHtml (split_lit (''--'' @ ''XYZ'') (rawBodyOf ?src)) = ''<p>Hello</p>'' @ [CR, LF]"
    by code_simp
  from multipart_last_part [THEN conjunct1, rule_format, OF bd, THEN conjunct2]
  show ?thesis
    unfolding pl ht .
qed

text \<open>
  C10, as the specification words it: a CRLF-CRLF sequence in the body appears as LF-LF in
  the extracted content. The rejoined text is decoded afterwards, and a \<^verbatim>\<open>=\<close> before the
  sequence makes the first LF of the LF-LF a soft line break, which the decoder removes.
\<close>

theorem blank_line_kept_counterexample:
  "decompose (''Subject: x'' @ [CR, LF, CR, LF] @ ''foo='' @ [CR, LF, CR, LF] @ ''bar'')
     = Some (''foo'' @ [LF] @ ''bar'', [])"
  by code_simp

text \<open>
  C10, amended: the decomposer does not preserve the message body byte-for-byte: the
  header/body split and each part's header/content split divide the text at every
  blank-line sequence (CRLF or LF) and rejoin the segments after the first with LF-LF.
  So the body block is the text after the first blank-line sequence of the source, and
  the content of a part is the text after the first blank-line sequence of the part,
  with every further blank-line sequence (CRLF-CRLF or another) replaced by LF-LF. The
  extracted content is the quoted-printable decoding of that text: of the body block
  when the headers have no boundary parameter, and otherwise of the content of the last
  part of its type, the parts being cut from the body block.
\<close>

theorem blank_lines_rejoined:
  "rawBodyOf src = normaliseBlank (textAfterBlank src)
   \<and> afterFirstBlank part = normaliseBlank (textAfterBlank part)
   \<and> (blank_free a \<and> clean_end a \<and> blank_seq bl \<longrightarrow>
        normaliseBlank (a @ bl @ b) = a @ [LF, LF] @ normaliseBlank b)
   \<and> (boundaryMatch (headersOf src) = None \<longrightarrow>
        decompose src = Some (decodeQuotedPrintable (normaliseBlank (textAfterBlank src)), []))
   \<and> (boundaryMatch (headersOf src) = Some bd \<longrightarrow>
        decompose src =
          Some (lastNormalised declaresPlain
                  (split_lit (''--'' @ bd) (normaliseBlank (textAfterBlank src))),
                lastNormalised declaresHtml
                  (split_lit (''--'' @ bd) (normaliseBlank (textAfterBlank src)))))"
proof -
  have "normaliseBlank (a @ bl @ b) = a @ [LF, LF] @ normaliseBlank b"
    if "blank_free a \<and> clean_end a \<and> blank_seq bl"
    using that normaliseBlank_shape [of a bl b] by blast
  then show ?thesis
    using rawBodyOf_normalise [of src] afterFirstBlank_normalise [of part]
      decompose_single_normalised [of src] decompose_multi_normalised [of src bd]
    by blast
qed

theorem blank_lines_rejoined_witness:
  "normaliseBlank (''one'' @ [CR, LF, CR, LF] @ ''two'') = ''one'' @ [LF, LF] @ ''two''
   \<and> decompose (''Subject: x'' @ [CR, LF, CR, LF] @ ''one=3D'' @ [CR, LF, CR, LF] @ ''two'')
     = Some (''one='' @ [LF, LF] @ ''two'', [])
   \<and> decompose
     (''Content-Type: multipart/mixed; boundary=XYZ'' @ [CR, LF, CR, LF]
      @ ''--XYZ'' @ [CR, LF] @ ''Content-Type: text/plain'' @ [CR, LF, CR, LF]
      @ ''Hello'' @ [CR, LF, CR, LF] @ ''World'' @ [CR, LF]
      @ ''--XYZ--'' @ [CR, LF])
     = Some (''Hello'' @ [LF, LF] @ ''World'' @ [CR, LF], [])"
proof -
  let ?single = "''Subject: x'' @ [CR, LF, CR, LF] @ ''one=3D'' @ [CR, LF, CR, LF] @ ''two''"
  let ?multi = "''Content-Type: multipart/mixed; boundary=XYZ'' @ [CR, LF, CR, LF]
      @ ''--XYZ'' @ [CR, LF] @ ''Content-Type: text/plain'' @ [CR, LF, CR, LF]
      @ ''Hello'' @ [CR, LF, CR, LF] @ ''World'' @ [CR, LF]
      @ ''--XYZ--'' @ [CR, LF]"
  have shape: "blank_free ''one'' \<and> clean_end ''one'' \<and> blank_seq [CR, LF, CR, LF]"
    by code_simp
  have two: "normaliseBlank ''two'' = ''two''"
    by code_simp
  from blank_lines_rejoined [THEN conjunct2, THEN conjunct2, THEN conjunct1, rule_format,
      OF shape, of "''two''"]
  have first: "normaliseBlank (''one'' @ [CR, LF, CR, LF] @ ''two'') = ''one'' @ [LF, LF] @ ''two''"
    unfolding two .
  have nob: "boundaryMatch (headersOf ?single) = None"
    by code_simp
  have dec: "decodeQuotedPrintable (normaliseBlank (textAfterBlank ?single))
      = ''one='' @ [LF, LF] @ ''two''"
    by code_simp
  from blank_lines_rejoined [THEN conjunct2, THEN conjunct2, THEN conjunct2, THEN conjunct1,
      rule_format, OF nob]
  have second: "decompose ?single = Some (''one='' @ [LF, LF] @ ''two'', [])"
    unfolding dec .
  have bd: "boundaryMatch (headersOf ?multi) = Some ''XYZ''"
    by code_simp
  have pl: "lastNormalised declaresPlain
      (split_lit (''--'' @ ''XYZ'') (normaliseBlank (textAfterBlank ?multi)))
      = ''Hello'' @ [LF, LF] @ ''World'' @ [CR, LF]"
    by code_simp
  have ht: "lastNormalised declaresHtml
      (split_lit (''--'' @ ''XYZ'') (normaliseBlank (textAfterBlank ?multi))) = []"
    by code_simp
  from blank_lines_rejoined [THEN conjunct2, THEN conjunct2, THEN conjunct2, THEN conjunct2,
      rule_format, OF bd]
  have third: "decompose ?multi = Some (''Hello'' @ [LF, LF] @ ''World'' @ [CR, LF], [])"
    unfolding pl ht .
  from first second third show ?thesis by blast
qed

section \<open>Threading headers\<close>

text \<open>
  C2, as the specification words it: whenever \<open>inReplyTo\<close> is present, References is the
  incoming references, a space and \<open>inReplyTo\<close>, or \<open>inReplyTo\<close> alone when there are no
  references. The test of line 399 is a truth test, so a field that is present but empty
  counts as absent: with an empty \<open>inReplyTo\<close> no header is set at all, and empty
  references add no leading space.
\<close>

theorem threading_references_counterexample:
  "mo_references (buildMailOptions ''me'' (\<lambda>d::unit. [])
      \<lparr>so_to = ''to'', so_subject = ''s'', so_body = ''b'', inReplyTo = Some [],
       so_references = Some ''<a@x>'', quotedMessage = None\<rparr>) = None
   \<and> mo_references (buildMailOptions ''me'' (\<lambda>d::unit. [])
      \<lparr>so_to = ''to'', so_subject = ''s'', so_body = ''b'', inReplyTo = Some ''<c@x>'',
       so_references = Some [], quotedMessage = None\<rparr>) = Some ''<c@x>''"
  by (simp add: buildMailOptions_def)

text \<open>
  C2, amended: for every SendOptions value whose \<open>inReplyTo\<close> is present and not empty,
  the outgoing In-Reply-To is that value, and References is the incoming references, one
  space and \<open>inReplyTo\<close> when references is present and not empty, and \<open>inReplyTo\<close> alone
  when references is absent or empty.
\<close>

theorem threading_references:
  assumes "inReplyTo options = Some irt" and "irt \<noteq> []"
  shows "mo_inReplyTo (buildMailOptions user fmt options) = Some irt
       \<and> (\<forall>refs. so_references options = Some refs \<and> refs \<noteq> [] \<longrightarrow>
            mo_references (buildMailOptions user fmt options) = Some (refs @ '' '' @ irt))
       \<and> (so_references options = None \<or> so_references options = Some [] \<longrightarrow>
            mo_references (buildMailOptions user fmt options) = Some irt)"
  using assms by (auto simp: buildMailOptions_def)

theorem threading_references_witness:
  "mo_references (buildMailOptions ''me'' (\<lambda>d::unit. [])
      \<lparr>so_to = ''to'', so_subject = ''s'', so_body = ''b'', inReplyTo = Some ''<c@x>'',
       so_references = Some ''<a@x> <b@x>'', quotedMessage = None\<rparr>)
     = Some ''<a@x> <b@x> <c@x>''
   \<and> mo_references (buildMailOptions ''me'' (\<lambda>d::unit. [])
      \<lparr>so_to = ''to'', so_subject = ''s'', so_body = ''b'', inReplyTo = Some ''<c@x>'',
       so_references = None, quotedMessage = None\<rparr>)
     = Some ''<c@x>''"
  using threading_references [of "\<lparr>so_to = ''to'', so_subject = ''s'', so_body = ''b'',
          inReplyTo = Some ''<c@x>'', so_references = Some ''<a@x> <b@x>'',
          quotedMessage = None\<rparr>" "''<c@x>''" "''me''" "\<lambda>d::unit. []"]
        threading_references [of "\<lparr>so_to = ''to'', so_subject = ''s'', so_body = ''b'',
          inReplyTo = Some ''<c@x>'', so_references = None,
          quotedMessage = None\<rparr>" "''<c@x>''" "''me''" "\<lambda>d::unit. []"]
  by simp

text \<open>
  C9: for every SendOptions value whose \<open>inReplyTo\<close> is absent, the outgoing message has
  neither an In-Reply-To nor a References header, whatever the \<open>references\<close> field holds.
\<close>

theorem no_threading_without_inReplyTo:
  assumes "inReplyTo options = None"
  shows "mo_inReplyTo (buildMailOptions user fmt options) = None
         \<and> mo_references (buildMailOptions user fmt options) = None"
  using assms by (simp add: buildMailOptions_def)

theorem no_threading_without_inReplyTo_witness:
  "mo_inReplyTo (buildMailOptions ''me'' (\<lambda>d::unit. [])
      \<lparr>so_to = ''to'', so_subject = ''s'', so_body = ''b'', inReplyTo = None,
       so_references = Some ''<a@x> <b@x>'', quotedMessage = None\<rparr>) = None
   \<and> mo_references (buildMailOptions ''me'' (\<lambda>d::unit. [])
      \<lparr>so_to = ''to'', so_subject = ''s'', so_body = ''b'', inReplyTo = None,
       so_references = Some ''<a@x> <b@x>'', quotedMessage = None\<rparr>) = None"
  using no_threading_without_inReplyTo [of "\<lparr>so_to = ''to'', so_subject = ''s'',
          so_body = ''b'', inReplyTo = None, so_references = Some ''<a@x> <b@x>'',
          quotedMessage = None\<rparr>" "''me''" "\<lambda>d::unit. []"]
  by simp

section \<open>The not-found signal\<close>

text \<open>
  C8: for every Message-ID whose inbox search yields zero matches (the session opens and
  closes without an error), the fetch operation returns \<^verbatim>\<open>null\<close> and throws nothing, and
  the caller prints \<^verbatim>\<open>Error: Could not find message with ID\<close> and exits with status 1.
  A failure of the connection or of the search is thrown instead, and the caller reports
  it as \<^verbatim>\<open>Failed:\<close> with the message of the error.
\<close>

theorem not_found_signal:
  assumes "imap_user w \<noteq> []" and "imap_pass w \<noteq> []"
    and "cli_command args \<in> {Some ''send'', Some ''reply''}"
    and "truthy (cli_to args)" and "truthy (cli_subject args)"
    and "trim (cli_stdin args) \<noteq> []"
    and "cli_quoteMessageId args = Some msgId" and "msgId \<noteq> []"
  shows
    "(imap_connect w = None \<and> imap_getMailboxLock w = None
      \<and> imap_search w (stripAngles msgId) = Inr [] \<and> imap_logout w = None \<longrightarrow>
        fetchMessageById w msgId = ([], Return None)
        \<and> main w args =
            ([Out (''Fetching message '' @ msgId @ ''...''),
              Err (''Error: Could not find message with ID '' @ msgId)], 1))
     \<and> (imap_connect w = Some e \<longrightarrow>
        fetchMessageById w msgId = ([], Throw e)
        \<and> main w args =
            ([Out (''Fetching message '' @ msgId @ ''...''), Err (''Failed: '' @ e)], 1))
     \<and> (imap_connect w = None \<and> imap_getMailboxLock w = None
      \<and> imap_search w (stripAngles msgId) = Inl e \<and> imap_logout w = None \<longrightarrow>
        fetchMessageById w msgId = ([], Throw e)
        \<and> main w args =
            ([Out (''Fetching message '' @ msgId @ ''...''), Err (''Failed: '' @ e)], 1))"
proof -
  have cmd: "truthy (cli_command args)"
    using assms(3) by (auto simp: truthy_def)
  have q: "truthy (cli_quoteMessageId args)" "or_else (cli_quoteMessageId args) [] = msgId"
    using assms(7,8) by (simp_all add: truthy_def or_else_def)
  have found: "fetchMessageById w msgId = ([], Return None)"
    if "imap_connect w = None \<and> imap_getMailboxLock w = None
      \<and> imap_search w (stripAngles msgId) = Inr [] \<and> imap_logout w = None"
    using that assms(1,2) by (simp add: fetchMessageById_def validateImapConfig_def fetchTry_def)
  have conn: "fetchMessageById w msgId = ([], Throw e)" if "imap_connect w = Some e"
    using that assms(1,2) by (simp add: fetchMessageById_def validateImapConfig_def)
  have srch: "fetchMessageById w msgId = ([], Throw e)"
    if "imap_connect w = None \<and> imap_getMailboxLock w = None
      \<and> imap_search w (stripAngles msgId) = Inl e \<and> imap_logout w = None"
    using that assms(1,2) by (simp add: fetchMessageById_def validateImapConfig_def fetchTry_def)
  have m_null: "main w args =
            ([Out (''Fetching message '' @ msgId @ ''...''),
              Err (''Error: Could not find message with ID '' @ msgId)], 1)"
    if "fetchMessageById w msgId = ([], Return None)"
    using that cmd q assms(3-6) by (simp add: main_def Let_def)
  have m_throw: "main w args =
            ([Out (''Fetching message '' @ msgId @ ''...''), Err (''Failed: '' @ e)], 1)"
    if "fetchMessageById w msgId = ([], Throw e)"
    using that cmd q assms(3-6) by (simp add: main_def Let_def finish_def)
  show ?thesis
    using found conn srch m_null m_throw by blast
qed

theorem not_found_signal_witness:
  "fetchMessageById
     \<lparr>smtp_user = ''me'', smtp_pass = ''pw'', imap_user = ''me'', imap_pass = ''pw'',
      imap_connect = None, imap_getMailboxLock = None, imap_search = (\<lambda>q. Inr []),
      imap_fetchOne = (\<lambda>uid. Inl ''no such message''), imap_logout = None,
      smtp_sendMail = (\<lambda>m. Inr ''<sent@x>''), new_Date = (), formatDate = (\<lambda>d. ''today'')\<rparr>
     ''<gone@x>'' = ([], Return None)
   \<and> main
     \<lparr>smtp_user = ''me'', smtp_pass = ''pw'', imap_user = ''me'', imap_pass = ''pw'',
      imap_connect = None, imap_getMailboxLock = None, imap_search = (\<lambda>q. Inr []),
      imap_fetchOne = (\<lambda>uid. Inl ''no such message''), imap_logout = None,
      smtp_sendMail = (\<lambda>m. Inr ''<sent@x>''), new_Date = (), formatDate = (\<lambda>d. ''today'')\<rparr>
     \<lparr>cli_command = Some ''reply'', cli_to = Some ''a@x'', cli_subject = Some ''Re'',
      cli_quoteMessageId = Some ''<gone@x>'', cli_inReplyTo = None, cli_references = None,
      cli_stdin = ''Thanks''\<rparr>
     = ([Out ''Fetching message <gone@x>...'',
         Err ''Error: Could not find message with ID <gone@x>''], 1)"
proof -
  have t: "trim ''Thanks'' \<noteq> []"
    by code_simp
  show ?thesis
    using not_found_signal [of
      "\<lparr>smtp_user = ''me'', smtp_pass = ''pw'', imap_user = ''me'', imap_pass = ''pw'',
        imap_connect = None, imap_getMailboxLock = None, imap_search = (\<lambda>q. Inr []),
        imap_fetchOne = (\<lambda>uid. Inl ''no such message''), imap_logout = None,
        smtp_sendMail = (\<lambda>m. Inr ''<sent@x>''), new_Date = (), formatDate = (\<lambda>d. ''today'')\<rparr>"
      "\<lparr>cli_command = Some ''reply'', cli_to = Some ''a@x'', cli_subject = Some ''Re'',
        cli_quoteMessageId = Some ''<gone@x>'', cli_inReplyTo = None, cli_references = None,
        cli_stdin = ''Thanks''\<rparr>" "''<gone@x>''"] t
    by (simp add: truthy_def)
qed

end
